theory Spec2Isabelle
  imports Main
begin

section \<open>JavaScript strings and values\<close>

text \<open>
  Strings are lists of code units; the model covers the code units below 256, and the
  Portuguese messages are written without their accents, pictographs and line breaks.
  \<open>isWhiteSpace\<close> is the white space and line terminator set of ECMAScript restricted
  to that range: it is what \<open>String.prototype.trim\<close> strips and what \<open>\s\<close> matches.
\<close>

definition isWhiteSpace :: "char \<Rightarrow> bool" where
  "isWhiteSpace c =
     (c = CHR 0x09 \<or> c = CHR 0x0A \<or> c = CHR 0x0B \<or> c = CHR 0x0C \<or> c = CHR 0x0D
      \<or> c = CHR 0x20 \<or> c = CHR 0xA0)"

definition trim :: "string \<Rightarrow> string" where
  "trim s = rev (dropWhile isWhiteSpace (rev (dropWhile isWhiteSpace s)))"

text \<open>Decimal rendering of a number inside a template literal.\<close>

fun string_of_nat :: "nat \<Rightarrow> string" where
  "string_of_nat n =
     (if n < 10 then [char_of (48 + n)]
      else string_of_nat (n div 10) @ [char_of (48 + n mod 10)])"

declare string_of_nat.simps [simp del]

text \<open>
  The two kinds of value that meet in the guard \<open>!file.type === 'application/pdf'\<close>:
  \<open>js_not\<close> is the operator \<open>!\<close>, which yields a boolean, and \<open>strict_eq\<close> is
  \<open>===\<close>, which is false between values of different types.
\<close>

datatype jsval = JBool bool | JStr string

fun truthy :: "jsval \<Rightarrow> bool" where
  "truthy (JBool b) = b"
| "truthy (JStr s) = (s \<noteq> [])"

definition js_not :: "jsval \<Rightarrow> jsval" where
  "js_not v = JBool (\<not> truthy v)"

fun strict_eq :: "jsval \<Rightarrow> jsval \<Rightarrow> bool" where
  "strict_eq (JBool a) (JBool b) = (a = b)"
| "strict_eq (JStr a) (JStr b) = (a = b)"
| "strict_eq _ _ = False"

text \<open>An optional string field of a response body; absent and empty are both falsy.\<close>

fun truthy_str :: "string option \<Rightarrow> bool" where
  "truthy_str None = False"
| "truthy_str (Some s) = (s \<noteq> [])"

section \<open>The backend as seen by the client\<close>

text \<open>
  A \<open>fetch\<close> either rejects (network error, with the message of the exception) or
  resolves to a response. \<open>body_json\<close> is what \<open>response.json()\<close> gives: \<open>Inl m\<close>
  when it throws with message \<open>m\<close>, \<open>Inr d\<close> the parsed body.
\<close>

datatype 'a response =
  Response (status: nat) (statusText: string) (body_text: string) (body_json: "string + 'a")

datatype 'a fetch_result = Rejected string | Resolved "'a response"

definition ok :: "'a response \<Rightarrow> bool" where
  "ok r = (200 \<le> status r \<and> status r \<le> 299)"

type_synonym source = string

datatype chat_data = ChatData (answer: "string option") (sources_d: "source list option")

datatype upload_data =
  UploadData (file_id: "string option") (summary_d: "string option")
    (file_removed: "bool option") (detail_u: "string option")

datatype history_entry =
  HistoryEntry (question: string) (answer_h: string) (timestamp_h: string)
    (sources_h: "source list")

datatype history_data = HistoryData (history: "history_entry list option")

record user =
  user_email :: string
  user_name :: string

datatype login_data =
  LoginData (user_d: "user option") (access_token: "string option") (detail_l: "string option")

section \<open>State of the view container\<close>

datatype sender = User | Bot

text \<open>
  A chat message. \<open>sources\<close> is \<open>None\<close> and \<open>isError\<close> is \<open>True\<close> on the object
  built in the \<open>catch\<close> branch, which has no \<open>sources\<close> field; the other messages
  have no \<open>isError\<close> field, read as false.
\<close>

record message =
  id_msg :: nat
  text_msg :: "string option"
  sender :: sender
  timestamp :: string
  sources :: "source list option"
  isError :: bool

record js_file =
  name_f :: string
  type_f :: string

text \<open>
  The uploaded-file descriptor. \<open>id_file\<close> is \<open>data.file_id\<close> as received;
  \<open>isTemporary\<close> is \<open>None\<close> in the variants whose descriptor has no such field.
\<close>

record uploaded_file =
  id_file :: "string option"
  name_file :: string
  summary :: "string option"
  uploadDate :: string
  isTemporary :: "bool option"

text \<open>
  The \<open>useState\<close> cells of \<open>AskFileSystem\<close>, with the browser's local storage.
  \<open>user\<close> exists in the token-authenticated variant only and \<open>userSessionId\<close> in
  the anonymous-session variants only; \<open>userHistory\<close> is \<open>None\<close> when it was set to
  an absent \<open>data.history\<close>.
\<close>

record app_state =
  user_st :: "user option"
  currentView :: string
  chatMessages :: "message list"
  currentMessage :: string
  isLoading :: bool
  userHistory :: "history_entry list option"
  suggestions :: "string list"
  uploadedFile :: "uploaded_file option"
  fileProcessing :: bool
  userSessionId :: string
  localStorage :: "string \<rightharpoonup> string"

section \<open>Observable effects of a handler\<close>

text \<open>
  A request is recorded with its method, its path below \<open>API_BASE_URL\<close>, the bearer
  token of its \<open>Authorization\<close> header (\<open>None\<close>: no such header; \<open>Some None\<close>: the
  stored token was absent) and its body. Console output is not recorded.
\<close>

datatype body =
  NoBody
| ChatBody string "string option" "string option"
| UploadBody js_file "string option"
| LoginBody string string
| RegisterBody string string string
| GoogleBody string

record request =
  http_method :: string
  path :: string
  bearer :: "string option option"
  body :: body

datatype effect =
  Alert string
| Fetch request
| OnLoginSuccess "user option" "string option"
| Reload

definition alerts :: "effect list \<Rightarrow> string list" where
  "alerts es = concat (map (\<lambda>e. case e of Alert a \<Rightarrow> [a] | _ \<Rightarrow> []) es)"

definition fetches :: "effect list \<Rightarrow> request list" where
  "fetches es = concat (map (\<lambda>e. case e of Fetch r \<Rightarrow> [r] | _ \<Rightarrow> []) es)"

text \<open>
  A handler is run to completion: it takes the state it was rendered with and what the
  environment supplies while it runs (the outcome of its request, the clock, the answer
  to a confirmation dialog), and returns the state after its last update together with
  its effects in order. No other event is interleaved between a request and its response,
  so a functional update \<open>setChatMessages(prev => ...)\<close> sees the state the handler
  itself has produced so far.
\<close>

record chat_env =
  now_user :: string
  now_bot :: string
  chat_result :: "chat_data fetch_result"

record upload_env =
  now_upload :: string
  upload_result :: "upload_data fetch_result"

definition quickSuggestions :: "string list" where
  "quickSuggestions =
     [''Resuma os principais pontos do documento'',
      ''Quais sao as informacoes mais importantes?'',
      ''Explique o contexto geral do arquivo'',
      ''Ha alguma conclusao ou resultado destacado?'',
      ''Quais dados numericos sao mencionados?'']"

definition alert_no_file :: string where
  "alert_no_file = ''Por favor, faca o upload de um arquivo PDF antes de fazer perguntas.''"

definition alert_no_file_selected :: string where
  "alert_no_file_selected = ''Nenhum arquivo selecionado.''"

definition alert_only_pdf :: string where
  "alert_only_pdf = ''Apenas arquivos PDF sao aceitos.''"

definition alert_upload_ok :: "string \<Rightarrow> string" where
  "alert_upload_ok n = ''Arquivo '' @ [CHR 0x22] @ n @ [CHR 0x22] @ '' processado com sucesso!''"

definition alert_upload_failed :: "string \<Rightarrow> string" where
  "alert_upload_failed m = ''Falha ao processar arquivo: '' @ m"

definition newUserMessage :: "app_state \<Rightarrow> string \<Rightarrow> message" where
  "newUserMessage s now =
     \<lparr>id_msg = length (chatMessages s) + 1, text_msg = Some (currentMessage s),
      sender = User, timestamp = now, sources = Some [], isError = False\<rparr>"

definition botMessage :: "app_state \<Rightarrow> chat_data \<Rightarrow> string \<Rightarrow> message" where
  "botMessage s d now =
     \<lparr>id_msg = length (chatMessages s) + 2, text_msg = answer d,
      sender = Bot, timestamp = now,
      sources = Some (case sources_d d of None \<Rightarrow> [] | Some xs \<Rightarrow> xs), isError = False\<rparr>"

definition errorMessage :: "message list \<Rightarrow> string \<Rightarrow> string \<Rightarrow> message" where
  "errorMessage prevMessages txt now =
     \<lparr>id_msg = length prevMessages + 2, text_msg = Some txt,
      sender = Bot, timestamp = now, sources = None, isError = True\<rparr>"

definition defaultUser_email :: "app_state \<Rightarrow> string" where
  "defaultUser_email s = userSessionId s @ ''@askfile.com''"

section \<open>codigo/frontend/src/App.js: anonymous session, current version\<close>

text \<open>The \<open>try\<close> block of \<open>handleSendMessage\<close>: \<open>Inl m\<close> is an exception with message \<open>m\<close>.\<close>

definition chat_try_App :: "chat_data fetch_result \<Rightarrow> string + chat_data" where
  "chat_try_App r =
     (case r of
        Rejected m \<Rightarrow> Inl m
      | Resolved resp \<Rightarrow>
          if \<not> ok resp
          then Inl (''HTTP '' @ string_of_nat (status resp) @ '': '' @ body_text resp)
          else body_json resp)"

definition handleSendMessage_App :: "app_state \<Rightarrow> chat_env \<Rightarrow> app_state \<times> effect list" where
  "handleSendMessage_App s env =
     (if trim (currentMessage s) = [] \<or> isLoading s then (s, [])
      else (case uploadedFile s of
        None \<Rightarrow> (s, [Alert alert_no_file])
      | Some f \<Rightarrow>
          (let s1 = s\<lparr>isLoading := True, suggestions := []\<rparr>;
               s2 = s1\<lparr>chatMessages := chatMessages s1 @ [newUserMessage s (now_user env)],
                       currentMessage := []\<rparr>;
               req = Fetch \<lparr>http_method = ''POST'', path = ''/api/chat'', bearer = None,
                       body = ChatBody (currentMessage s) (id_file f) (Some (defaultUser_email s))\<rparr>
           in (case chat_try_App (chat_result env) of
                 Inr d \<Rightarrow>
                   (s2\<lparr>chatMessages := chatMessages s2 @ [botMessage s d (now_bot env)],
                       isLoading := False\<rparr>, [req])
               | Inl m \<Rightarrow>
                   (s2\<lparr>chatMessages := chatMessages s2 @
                          [errorMessage (chatMessages s2)
                             (''Desculpe, nao consegui obter uma resposta. Erro: '' @ m) (now_bot env)],
                       isLoading := False\<rparr>, [req])))))"

text \<open>\<open>String.prototype.toLowerCase\<close> and \<open>String.prototype.includes\<close> on the modelled code units.\<close>

definition toLowerCase_char :: "char \<Rightarrow> char" where
  "toLowerCase_char c =
     (let n = of_char c :: nat
      in if (65 \<le> n \<and> n \<le> 90) \<or> (192 \<le> n \<and> n \<le> 222 \<and> n \<noteq> 215)
         then char_of (n + 32) else c)"

definition toLowerCase :: "string \<Rightarrow> string" where
  "toLowerCase s = map toLowerCase_char s"

fun startsWith :: "string \<Rightarrow> string \<Rightarrow> bool" where
  "startsWith _ [] = True"
| "startsWith [] (y # ys) = False"
| "startsWith (x # xs) (y # ys) = (x = y \<and> startsWith xs ys)"

fun includes_str :: "string \<Rightarrow> string \<Rightarrow> bool" where
  "includes_str [] t = (t = [])"
| "includes_str (x # xs) t = (startsWith (x # xs) t \<or> includes_str xs t)"

definition handleViewChange :: "app_state \<Rightarrow> string \<Rightarrow> app_state" where
  "handleViewChange s newView = s\<lparr>currentView := newView\<rparr>"

definition handleInputChange :: "app_state \<Rightarrow> string \<Rightarrow> app_state" where
  "handleInputChange s v =
     (if v = [] then s\<lparr>currentMessage := v, suggestions := []\<rparr>
      else s\<lparr>currentMessage := v,
             suggestions := filter (\<lambda>q. includes_str (toLowerCase q) (toLowerCase v)) quickSuggestions\<rparr>)"

definition upload_try_App :: "upload_data fetch_result \<Rightarrow> string + upload_data" where
  "upload_try_App r =
     (case r of
        Rejected m \<Rightarrow> Inl m
      | Resolved resp \<Rightarrow>
          if \<not> ok resp
          then Inl (''HTTP '' @ string_of_nat (status resp) @ '': '' @ body_text resp)
          else (case body_json resp of
                  Inl m \<Rightarrow> Inl m
                | Inr d \<Rightarrow>
                    if truthy_str (file_id d) then Inr d
                    else Inl ''Resposta invalida do servidor''))"

definition file_removed_or_false :: "upload_data \<Rightarrow> bool" where
  "file_removed_or_false d = (case file_removed d of None \<Rightarrow> False | Some b \<Rightarrow> b)"

definition handleFileUpload_App ::
  "app_state \<Rightarrow> js_file option \<Rightarrow> upload_env \<Rightarrow> app_state \<times> effect list" where
  "handleFileUpload_App s file env =
     (case file of
        None \<Rightarrow> (s, [Alert alert_no_file_selected])
      | Some f \<Rightarrow>
          if type_f f \<noteq> ''application/pdf'' then (s, [Alert alert_only_pdf])
          else
            (let s1 = s\<lparr>uploadedFile := None, chatMessages := [], currentMessage := [],
                        suggestions := [], fileProcessing := True\<rparr>;
                 req = Fetch \<lparr>http_method = ''POST'', path = ''/api/upload/'', bearer = None,
                         body = UploadBody f (Some (defaultUser_email s))\<rparr>
             in (case upload_try_App (upload_result env) of
                   Inr d \<Rightarrow>
                     (s1\<lparr>uploadedFile :=
                            Some \<lparr>id_file = file_id d, name_file = name_f f,
                                  summary = summary_d d, uploadDate = now_upload env,
                                  isTemporary = Some (file_removed_or_false d)\<rparr>,
                         fileProcessing := False\<rparr>,
                      [req, Alert (alert_upload_ok (name_f f))])
                 | Inl m \<Rightarrow>
                     (s1\<lparr>uploadedFile := None, chatMessages := [], fileProcessing := False\<rparr>,
                      [req, Alert (alert_upload_failed m)]))))"

definition history_try_App :: "history_data fetch_result \<Rightarrow> string + history_data" where
  "history_try_App r =
     (case r of
        Rejected m \<Rightarrow> Inl m
      | Resolved resp \<Rightarrow>
          if \<not> ok resp
          then Inl (''HTTP '' @ string_of_nat (status resp) @ '': '' @ body_text resp)
          else body_json resp)"

definition history_or_empty :: "history_data \<Rightarrow> history_entry list" where
  "history_or_empty d = (case history d of None \<Rightarrow> [] | Some h \<Rightarrow> h)"

definition fetchUserHistory_App ::
  "app_state \<Rightarrow> history_data fetch_result \<Rightarrow> app_state \<times> effect list" where
  "fetchUserHistory_App s r =
     (let s1 = s\<lparr>isLoading := True\<rparr>;
          req = Fetch \<lparr>http_method = ''GET'',
                  path = ''/api/history?user_email='' @ defaultUser_email s,
                  bearer = None, body = NoBody\<rparr>
      in (case history_try_App r of
            Inr d \<Rightarrow> (s1\<lparr>userHistory := Some (history_or_empty d), isLoading := False\<rparr>, [req])
          | Inl m \<Rightarrow> (s1\<lparr>userHistory := Some [], isLoading := False\<rparr>, [req])))"

text \<open>
  \<open>handleLogout\<close>: \<open>confirmClear\<close> is the answer to \<open>window.confirm\<close>. The outcome of
  the \<open>DELETE\<close> request is not inspected: a rejection is caught and logged, a response
  of any status is dropped.
\<close>

definition handleLogout_App ::
  "app_state \<Rightarrow> bool \<Rightarrow> unit fetch_result \<Rightarrow> app_state \<times> effect list" where
  "handleLogout_App s confirmClear r =
     (if confirmClear
      then (s\<lparr>chatMessages := [], uploadedFile := None, userHistory := Some [],
              currentMessage := [], suggestions := []\<rparr>,
            [Fetch \<lparr>http_method = ''DELETE'',
                    path = ''/api/history?user_email='' @ defaultUser_email s,
                    bearer = None, body = NoBody\<rparr>,
             Alert ''Dados da sessao limpos com sucesso.''])
      else (s, []))"

text \<open>
  The state a page load starts from: \<open>ls\<close> is the local storage found and \<open>fresh\<close>
  the identifier \<open>generateSessionId\<close> would produce.
\<close>

definition session_key :: string where
  "session_key = ''askfile_session_id''"

definition initial_App :: "(string \<rightharpoonup> string) \<Rightarrow> string \<Rightarrow> app_state" where
  "initial_App ls fresh =
     (let stored = (case ls session_key of None \<Rightarrow> [] | Some v \<Rightarrow> v);
          sessionId = (if stored = [] then fresh else stored)
      in \<lparr>user_st = None, currentView = ''chat'', chatMessages = [], currentMessage = [],
          isLoading = False, userHistory = Some [], suggestions = [], uploadedFile = None,
          fileProcessing = False, userSessionId = sessionId,
          localStorage = (if stored = [] then ls(session_key \<mapsto> fresh) else ls)\<rparr>)"

datatype component = LoginView | ChatView | HistoryView

definition render_App :: "app_state \<Rightarrow> component" where
  "render_App s = (if currentView s = ''history'' then HistoryView else ChatView)"

section \<open>Part 000: anonymous session, earlier version\<close>

definition chat_try_session :: "chat_data fetch_result \<Rightarrow> string + chat_data" where
  "chat_try_session r =
     (case r of
        Rejected m \<Rightarrow> Inl m
      | Resolved resp \<Rightarrow>
          if \<not> ok resp then Inl (''HTTP error! status: '' @ string_of_nat (status resp))
          else body_json resp)"

definition handleSendMessage_session ::
  "app_state \<Rightarrow> chat_env \<Rightarrow> app_state \<times> effect list" where
  "handleSendMessage_session s env =
     (if trim (currentMessage s) = [] \<or> isLoading s then (s, [])
      else (case uploadedFile s of
        None \<Rightarrow> (s, [Alert alert_no_file])
      | Some f \<Rightarrow>
          (let s1 = s\<lparr>isLoading := True, suggestions := []\<rparr>;
               s2 = s1\<lparr>chatMessages := chatMessages s1 @ [newUserMessage s (now_user env)],
                       currentMessage := []\<rparr>;
               req = Fetch \<lparr>http_method = ''POST'', path = ''/api/chat'', bearer = None,
                       body = ChatBody (currentMessage s) (id_file f) (Some (defaultUser_email s))\<rparr>
           in (case chat_try_session (chat_result env) of
                 Inr d \<Rightarrow>
                   (s2\<lparr>chatMessages := chatMessages s2 @ [botMessage s d (now_bot env)],
                       isLoading := False\<rparr>, [req])
               | Inl m \<Rightarrow>
                   (s2\<lparr>chatMessages := chatMessages s2 @
                          [errorMessage (chatMessages s2)
                             (''Desculpe, nao consegui obter uma resposta. (Erro: '' @ m @ '')'')
                             (now_bot env)],
                       isLoading := False\<rparr>, [req])))))"

text \<open>
  The \<open>try\<close> block of the upload where the body is parsed before \<open>response.ok\<close> is
  looked at (parts 000 and 001).
\<close>

definition detail_or :: "upload_data \<Rightarrow> string \<Rightarrow> string" where
  "detail_or d dflt =
     (case detail_u d of None \<Rightarrow> dflt | Some x \<Rightarrow> if x = [] then dflt else x)"

definition upload_try_parsed :: "upload_data fetch_result \<Rightarrow> string + upload_data" where
  "upload_try_parsed r =
     (case r of
        Rejected m \<Rightarrow> Inl m
      | Resolved resp \<Rightarrow>
          (case body_json resp of
             Inl m \<Rightarrow> Inl m
           | Inr d \<Rightarrow>
               if ok resp then Inr d
               else Inl (detail_or d (''Erro ao processar arquivo: '' @ statusText resp))))"

definition handleFileUpload_session ::
  "app_state \<Rightarrow> js_file option \<Rightarrow> upload_env \<Rightarrow> app_state \<times> effect list" where
  "handleFileUpload_session s file env =
     (case file of
        None \<Rightarrow> (s, [Alert alert_no_file_selected])
      | Some f \<Rightarrow>
          if type_f f \<noteq> ''application/pdf'' then (s, [Alert alert_only_pdf])
          else
            (let s1 = s\<lparr>uploadedFile := None, chatMessages := [], currentMessage := [],
                        suggestions := [], fileProcessing := True\<rparr>;
                 req = Fetch \<lparr>http_method = ''POST'', path = ''/api/upload'', bearer = None,
                         body = UploadBody f (Some (defaultUser_email s))\<rparr>
             in (case upload_try_parsed (upload_result env) of
                   Inr d \<Rightarrow>
                     (s1\<lparr>uploadedFile :=
                            Some \<lparr>id_file = file_id d, name_file = name_f f,
                                  summary = summary_d d, uploadDate = now_upload env,
                                  isTemporary = Some (file_removed_or_false d)\<rparr>,
                         fileProcessing := False\<rparr>,
                      [req, Alert (alert_upload_ok (name_f f))])
                 | Inl m \<Rightarrow>
                     (s1\<lparr>uploadedFile := None, chatMessages := [], fileProcessing := False\<rparr>,
                      [req, Alert (alert_upload_failed m)]))))"

definition history_try_plain :: "history_data fetch_result \<Rightarrow> string + history_data" where
  "history_try_plain r =
     (case r of
        Rejected m \<Rightarrow> Inl m
      | Resolved resp \<Rightarrow>
          if \<not> ok resp then Inl (''HTTP error! status: '' @ string_of_nat (status resp))
          else body_json resp)"

definition fetchUserHistory_session ::
  "app_state \<Rightarrow> history_data fetch_result \<Rightarrow> app_state \<times> effect list" where
  "fetchUserHistory_session s r =
     (let s1 = s\<lparr>isLoading := True\<rparr>;
          req = Fetch \<lparr>http_method = ''GET'',
                  path = ''/api/history?user_email='' @ defaultUser_email s,
                  bearer = None, body = NoBody\<rparr>
      in (case history_try_plain r of
            Inr d \<Rightarrow> (s1\<lparr>userHistory := Some (history_or_empty d), isLoading := False\<rparr>, [req])
          | Inl m \<Rightarrow> (s1\<lparr>userHistory := Some [], isLoading := False\<rparr>, [req])))"

definition handleLogout_session ::
  "app_state \<Rightarrow> bool \<Rightarrow> unit fetch_result \<Rightarrow> app_state \<times> effect list" where
  "handleLogout_session s confirmClear r =
     (if confirmClear
      then (s\<lparr>chatMessages := [], uploadedFile := None, userHistory := Some [],
              currentMessage := [], suggestions := []\<rparr>,
            [Fetch \<lparr>http_method = ''DELETE'',
                    path = ''/api/history?user_email='' @ defaultUser_email s,
                    bearer = None, body = NoBody\<rparr>,
             Alert ''Dados da sessao limpos com sucesso.''])
      else (s, []))"

text \<open>
  \<open>handleNewSession\<close>: the stored session identifier is removed and the page reloaded,
  so the component starts again from its initial state; \<open>fresh\<close> is the identifier
  generated by that load.
\<close>

definition handleNewSession ::
  "app_state \<Rightarrow> bool \<Rightarrow> string \<Rightarrow> app_state \<times> effect list" where
  "handleNewSession s confirmNew fresh =
     (if confirmNew
      then (initial_App ((localStorage s)(session_key := None)) fresh, [Reload])
      else (s, []))"

section \<open>Part 001, first file: token-authenticated variant\<close>

definition initial_auth :: "(string \<rightharpoonup> string) \<Rightarrow> app_state" where
  "initial_auth ls =
     \<lparr>user_st = None, currentView = ''login'', chatMessages = [], currentMessage = [],
      isLoading = False, userHistory = Some [], suggestions = [], uploadedFile = None,
      fileProcessing = False, userSessionId = [], localStorage = ls\<rparr>"

definition handleLogout_auth :: "app_state \<Rightarrow> app_state \<times> effect list" where
  "handleLogout_auth s =
     (s\<lparr>user_st := None, chatMessages := [], uploadedFile := None, currentView := ''login'',
        localStorage := (localStorage s)(''token'' := None, ''user'' := None)\<rparr>,
      [Alert ''Voce foi desconectado.''])"

definition alert_session_expired :: string where
  "alert_session_expired = ''Sessao expirada. Por favor, faca login novamente.''"

definition handleSendMessage_auth ::
  "app_state \<Rightarrow> chat_env \<Rightarrow> app_state \<times> effect list" where
  "handleSendMessage_auth s env =
     (if trim (currentMessage s) = [] \<or> isLoading s then (s, [])
      else (case uploadedFile s of
        None \<Rightarrow> (s, [Alert alert_no_file])
      | Some f \<Rightarrow>
          (let s1 = s\<lparr>isLoading := True, suggestions := []\<rparr>;
               s2 = s1\<lparr>chatMessages := chatMessages s1 @ [newUserMessage s (now_user env)],
                       currentMessage := []\<rparr>;
               req = Fetch \<lparr>http_method = ''POST'', path = ''/api/chat'',
                       bearer = Some (localStorage s ''token''),
                       body = ChatBody (currentMessage s) (id_file f) None\<rparr>;
               err = (\<lambda>m.
                   (s2\<lparr>chatMessages := chatMessages s2 @
                          [errorMessage (chatMessages s2)
                             (''Desculpe, nao consegui obter uma resposta. '' @
                              ''Por favor, tente novamente. (Erro: '' @ m @ '')'')
                             (now_bot env)],
                       isLoading := False\<rparr>, [req]))
           in (case chat_result env of
                 Rejected m \<Rightarrow> err m
               | Resolved resp \<Rightarrow>
                   if \<not> ok resp then
                     (if status resp = 401
                      then (let (s3, es) = handleLogout_auth s2
                            in (s3\<lparr>isLoading := False\<rparr>, [req, Alert alert_session_expired] @ es))
                      else err (''HTTP error! status: '' @ string_of_nat (status resp)))
                   else (case body_json resp of
                           Inl m \<Rightarrow> err m
                         | Inr d \<Rightarrow>
                             (s2\<lparr>chatMessages := chatMessages s2 @ [botMessage s d (now_bot env)],
                                 isLoading := False\<rparr>, [req]))))))"

text \<open>
  The type guard of \<open>handleFileUpload\<close> in part 001 is written
  \<open>!file.type === 'application/pdf'\<close>: the negation applies to \<open>file.type\<close> and its
  boolean result is compared with the string.
\<close>

definition type_guard_001 :: "js_file \<Rightarrow> bool" where
  "type_guard_001 f = strict_eq (js_not (JStr (type_f f))) (JStr ''application/pdf'')"

definition handleFileUpload_auth ::
  "app_state \<Rightarrow> js_file option \<Rightarrow> upload_env \<Rightarrow> app_state \<times> effect list" where
  "handleFileUpload_auth s file env =
     (case file of
        None \<Rightarrow> (s, [Alert alert_no_file_selected])
      | Some f \<Rightarrow>
          if type_guard_001 f then (s, [Alert alert_only_pdf])
          else
            (let s1 = s\<lparr>fileProcessing := True\<rparr>;
                 req = Fetch \<lparr>http_method = ''POST'', path = ''/api/upload'',
                         bearer = Some (localStorage s ''token''), body = UploadBody f None\<rparr>
             in (case upload_try_parsed (upload_result env) of
                   Inr d \<Rightarrow>
                     (s1\<lparr>uploadedFile :=
                            Some \<lparr>id_file = file_id d, name_file = name_f f,
                                  summary = summary_d d, uploadDate = now_upload env,
                                  isTemporary = None\<rparr>,
                         chatMessages := [], fileProcessing := False\<rparr>,
                      [req, Alert (alert_upload_ok (name_f f))])
                 | Inl m \<Rightarrow>
                     (s1\<lparr>fileProcessing := False\<rparr>, [req, Alert (alert_upload_failed m)]))))"

definition fetchUserHistory_auth ::
  "app_state \<Rightarrow> history_data fetch_result \<Rightarrow> app_state \<times> effect list" where
  "fetchUserHistory_auth s r =
     (if user_st s = None then (s, [])
      else
        (let s1 = s\<lparr>isLoading := True\<rparr>;
             req = Fetch \<lparr>http_method = ''GET'', path = ''/api/history'',
                     bearer = Some (localStorage s ''token''), body = NoBody\<rparr>
         in (case history_try_plain r of
               Inr d \<Rightarrow> (s1\<lparr>userHistory := history d, isLoading := False\<rparr>, [req])
             | Inl m \<Rightarrow> (s1\<lparr>userHistory := Some [], isLoading := False\<rparr>, [req]))))"

definition render_auth :: "app_state \<Rightarrow> component" where
  "render_auth s =
     (if user_st s = None then LoginView
      else if currentView s = ''history'' then HistoryView else ChatView)"

section \<open>Part 001, second file: variant without authentication\<close>

definition initial_noauth :: "(string \<rightharpoonup> string) \<Rightarrow> app_state" where
  "initial_noauth ls =
     \<lparr>user_st = None, currentView = ''chat'', chatMessages = [], currentMessage = [],
      isLoading = False, userHistory = Some [], suggestions = [], uploadedFile = None,
      fileProcessing = False, userSessionId = [], localStorage = ls\<rparr>"

definition defaultUser_email_noauth :: string where
  "defaultUser_email_noauth = ''usuario@askfile.com''"

definition handleSendMessage_noauth ::
  "app_state \<Rightarrow> chat_env \<Rightarrow> app_state \<times> effect list" where
  "handleSendMessage_noauth s env =
     (if trim (currentMessage s) = [] \<or> isLoading s then (s, [])
      else (case uploadedFile s of
        None \<Rightarrow> (s, [Alert alert_no_file])
      | Some f \<Rightarrow>
          (let s1 = s\<lparr>isLoading := True, suggestions := []\<rparr>;
               s2 = s1\<lparr>chatMessages := chatMessages s1 @ [newUserMessage s (now_user env)],
                       currentMessage := []\<rparr>;
               req = Fetch \<lparr>http_method = ''POST'', path = ''/api/chat'', bearer = None,
                       body = ChatBody (currentMessage s) (id_file f)
                                (Some defaultUser_email_noauth)\<rparr>
           in (case chat_try_session (chat_result env) of
                 Inr d \<Rightarrow>
                   (s2\<lparr>chatMessages := chatMessages s2 @ [botMessage s d (now_bot env)],
                       isLoading := False\<rparr>, [req])
               | Inl m \<Rightarrow>
                   (s2\<lparr>chatMessages := chatMessages s2 @
                          [errorMessage (chatMessages s2)
                             (''Desculpe, nao consegui obter uma resposta. '' @
                              ''Por favor, tente novamente. (Erro: '' @ m @ '')'')
                             (now_bot env)],
                       isLoading := False\<rparr>, [req])))))"

definition handleFileUpload_noauth ::
  "app_state \<Rightarrow> js_file option \<Rightarrow> upload_env \<Rightarrow> app_state \<times> effect list" where
  "handleFileUpload_noauth s file env =
     (case file of
        None \<Rightarrow> (s, [Alert alert_no_file_selected])
      | Some f \<Rightarrow>
          if type_guard_001 f then (s, [Alert alert_only_pdf])
          else
            (let s1 = s\<lparr>fileProcessing := True\<rparr>;
                 req = Fetch \<lparr>http_method = ''POST'', path = ''/api/upload'', bearer = None,
                         body = UploadBody f (Some defaultUser_email_noauth)\<rparr>
             in (case upload_try_parsed (upload_result env) of
                   Inr d \<Rightarrow>
                     (s1\<lparr>uploadedFile :=
                            Some \<lparr>id_file = file_id d, name_file = name_f f,
                                  summary = summary_d d, uploadDate = now_upload env,
                                  isTemporary = None\<rparr>,
                         chatMessages := [], fileProcessing := False\<rparr>,
                      [req, Alert (alert_upload_ok (name_f f))])
                 | Inl m \<Rightarrow>
                     (s1\<lparr>fileProcessing := False\<rparr>, [req, Alert (alert_upload_failed m)]))))"

definition fetchUserHistory_noauth ::
  "app_state \<Rightarrow> history_data fetch_result \<Rightarrow> app_state \<times> effect list" where
  "fetchUserHistory_noauth s r =
     (let s1 = s\<lparr>isLoading := True\<rparr>;
          req = Fetch \<lparr>http_method = ''GET'',
                  path = ''/api/history?user_email='' @ defaultUser_email_noauth,
                  bearer = None, body = NoBody\<rparr>
      in (case history_try_plain r of
            Inr d \<Rightarrow> (s1\<lparr>userHistory := history d, isLoading := False\<rparr>, [req])
          | Inl m \<Rightarrow> (s1\<lparr>userHistory := Some [], isLoading := False\<rparr>, [req])))"

definition handleLogout_noauth :: "app_state \<Rightarrow> app_state \<times> effect list" where
  "handleLogout_noauth s =
     (s\<lparr>chatMessages := [], uploadedFile := None, userHistory := Some []\<rparr>,
      [Alert ''Dados limpos com sucesso.''])"

section \<open>The views\<close>

text \<open>
  \<open>HistoryView\<close> (part 003): the effect run when the component is mounted calls the
  \<open>fetchUserHistory\<close> property if it was passed.
\<close>

definition HistoryView_mount ::
  "(app_state \<Rightarrow> history_data fetch_result \<Rightarrow> app_state \<times> effect list) option \<Rightarrow>
   app_state \<Rightarrow> history_data fetch_result \<Rightarrow> app_state \<times> effect list" where
  "HistoryView_mount fetchUserHistory s r =
     (case fetchUserHistory of None \<Rightarrow> (s, []) | Some f \<Rightarrow> f s r)"

text \<open>\<open>ChatView\<close> (part 002): the \<open>disabled\<close> attribute of the send button.\<close>

definition send_button_disabled :: "app_state \<Rightarrow> bool" where
  "send_button_disabled s =
     (isLoading s \<or> trim (currentMessage s) = [] \<or> uploadedFile s = None)"

text \<open>
  \<open>ChatView\<close>: \<open>handleFileChange\<close> receives the first selected file, if any, and
  checks its type before it calls the \<open>handleFileUpload\<close> property.
\<close>

definition alert_only_pdf_view :: string where
  "alert_only_pdf_view = ''Apenas arquivos PDF sao aceitos!''"

definition handleFileChange ::
  "(app_state \<Rightarrow> js_file option \<Rightarrow> upload_env \<Rightarrow> app_state \<times> effect list) \<Rightarrow>
   app_state \<Rightarrow> js_file option \<Rightarrow> upload_env \<Rightarrow> app_state \<times> effect list" where
  "handleFileChange handleFileUpload s file env =
     (case file of
        None \<Rightarrow> (s, [])
      | Some f \<Rightarrow>
          if type_f f \<noteq> ''application/pdf'' then (s, [Alert alert_only_pdf_view])
          else handleFileUpload s (Some f) env)"

section \<open>LoginView\<close>

text \<open>
  Regular expressions over code units, matched by derivatives. \<open>test_re r s\<close> is
  \<open>/^r$/.test(s)\<close> for an expression without captures or assertions.
\<close>

datatype regex =
  Never
| Empty
| Class "char \<Rightarrow> bool"
| Alt regex regex
| Seq regex regex
| Many regex

fun nullable :: "regex \<Rightarrow> bool" where
  "nullable Never = False"
| "nullable Empty = True"
| "nullable (Class p) = False"
| "nullable (Alt a b) = (nullable a \<or> nullable b)"
| "nullable (Seq a b) = (nullable a \<and> nullable b)"
| "nullable (Many a) = True"

fun deriv :: "char \<Rightarrow> regex \<Rightarrow> regex" where
  "deriv c Never = Never"
| "deriv c Empty = Never"
| "deriv c (Class p) = (if p c then Empty else Never)"
| "deriv c (Alt a b) = Alt (deriv c a) (deriv c b)"
| "deriv c (Seq a b) =
     (if nullable a then Alt (Seq (deriv c a) b) (deriv c b) else Seq (deriv c a) b)"
| "deriv c (Many a) = Seq (deriv c a) (Many a)"

fun test_re :: "regex \<Rightarrow> string \<Rightarrow> bool" where
  "test_re r [] = nullable r"
| "test_re r (c # cs) = test_re (deriv c r) cs"

text \<open>
  The set of strings an expression stands for, against which the matcher is checked.
\<close>

inductive_set star :: "string set \<Rightarrow> string set" for A :: "string set" where
  star_empty: "[] \<in> star A"
| star_more: "u \<in> A \<Longrightarrow> v \<in> star A \<Longrightarrow> u @ v \<in> star A"

fun lang :: "regex \<Rightarrow> string set" where
  "lang Never = {}"
| "lang Empty = {[]}"
| "lang (Class p) = {[c] | c. p c}"
| "lang (Alt a b) = lang a \<union> lang b"
| "lang (Seq a b) = {u @ v | u v. u \<in> lang a \<and> v \<in> lang b}"
| "lang (Many a) = star (lang a)"

definition OneOrMore :: "regex \<Rightarrow> regex" where
  "OneOrMore r = Seq r (Many r)"

text \<open>The class \<open>[^\s@]\<close> and the expression \<open>/^[^\s@]+@[^\s@]+\.[^\s@]+$/\<close>.\<close>

definition not_space_at :: "char \<Rightarrow> bool" where
  "not_space_at c = (\<not> isWhiteSpace c \<and> c \<noteq> CHR ''@'')"

definition emailRegex :: regex where
  "emailRegex =
     Seq (OneOrMore (Class not_space_at))
       (Seq (Class (\<lambda>c. c = CHR ''@''))
         (Seq (OneOrMore (Class not_space_at))
           (Seq (Class (\<lambda>c. c = CHR ''.''))
             (OneOrMore (Class not_space_at)))))"

definition validateEmail :: "string \<Rightarrow> bool" where
  "validateEmail email = test_re emailRegex email"

record credentials =
  email_c :: string
  password_c :: string

record registerData =
  name_r :: string
  email_r :: string
  password_r :: string
  confirmPassword :: string

text \<open>
  The local state of \<open>LoginView\<close>, with the \<open>isLoading\<close> flag it receives from the
  container and sets through \<open>setIsLoading\<close>.
\<close>

record login_view =
  credentials :: credentials
  registerData :: registerData
  loginMode :: string
  isLoading_lv :: bool

definition validateLoginForm :: "login_view \<Rightarrow> bool \<times> effect list" where
  "validateLoginForm lv =
     (if email_c (credentials lv) = [] \<or> password_c (credentials lv) = []
      then (False, [Alert ''Por favor, preencha email e senha!''])
      else if \<not> validateEmail (email_c (credentials lv))
      then (False, [Alert ''Por favor, insira um email valido!''])
      else (True, []))"

definition validateRegisterForm :: "login_view \<Rightarrow> bool \<times> effect list" where
  "validateRegisterForm lv =
     (let rd = registerData lv
      in if name_r rd = [] \<or> email_r rd = [] \<or> password_r rd = []
         then (False, [Alert ''Preencha todos os campos!''])
         else if length (trim (name_r rd)) < 2
         then (False, [Alert ''O nome deve ter pelo menos 2 caracteres!''])
         else if \<not> validateEmail (email_r rd)
         then (False, [Alert ''Por favor, insira um email valido!''])
         else if length (password_r rd) < 6
         then (False, [Alert ''A senha deve ter pelo menos 6 caracteres!''])
         else if password_r rd \<noteq> confirmPassword rd
         then (False, [Alert ''As senhas nao coincidem!''])
         else (True, []))"

definition alert_connection :: string where
  "alert_connection = ''Erro de conexao. Verifique sua internet e tente novamente.''"

definition detail_l_or :: "login_data \<Rightarrow> string \<Rightarrow> string" where
  "detail_l_or d dflt =
     (case detail_l d of None \<Rightarrow> dflt | Some x \<Rightarrow> if x = [] then dflt else x)"

definition handleLogin ::
  "login_view \<Rightarrow> login_data fetch_result \<Rightarrow> login_view \<times> effect list" where
  "handleLogin lv r =
     (let (valid, es) = validateLoginForm lv
      in if \<not> valid then (lv, es)
         else
           (let req = Fetch \<lparr>http_method = ''POST'', path = ''/api/login'', bearer = None,
                        body = LoginBody (email_c (credentials lv)) (password_c (credentials lv))\<rparr>;
                failed = (lv\<lparr>isLoading_lv := False\<rparr>, [req, Alert alert_connection])
            in (case r of
                  Rejected m \<Rightarrow> failed
                | Resolved resp \<Rightarrow>
                    (case body_json resp of
                       Inl m \<Rightarrow> failed
                     | Inr d \<Rightarrow>
                         if ok resp
                         then (lv\<lparr>credentials := \<lparr>email_c = [], password_c = []\<rparr>,
                                  isLoading_lv := False\<rparr>,
                               [req, OnLoginSuccess (user_d d) (access_token d)])
                         else (lv\<lparr>isLoading_lv := False\<rparr>,
                               [req, Alert (''Erro no login: '' @
                                  detail_l_or d ''Email ou senha incorretos.'')])))))"

definition alert_registered :: string where
  "alert_registered =
     ''Cadastro realizado com sucesso! Agora voce pode fazer login com suas credenciais.''"

definition handleRegister ::
  "login_view \<Rightarrow> login_data fetch_result \<Rightarrow> login_view \<times> effect list" where
  "handleRegister lv r =
     (let (valid, es) = validateRegisterForm lv
      in if \<not> valid then (lv, es)
         else
           (let rd = registerData lv;
                req = Fetch \<lparr>http_method = ''POST'', path = ''/api/login/register'', bearer = None,
                        body = RegisterBody (trim (name_r rd)) (toLowerCase (email_r rd))
                                 (password_r rd)\<rparr>;
                failed = (lv\<lparr>isLoading_lv := False\<rparr>, [req, Alert alert_connection])
            in (case r of
                  Rejected m \<Rightarrow> failed
                | Resolved resp \<Rightarrow>
                    (case body_json resp of
                       Inl m \<Rightarrow> failed
                     | Inr d \<Rightarrow>
                         if ok resp
                         then (lv\<lparr>registerData :=
                                    \<lparr>name_r = [], email_r = [], password_r = [],
                                     confirmPassword = []\<rparr>,
                                  loginMode := ''traditional'',
                                  credentials := \<lparr>email_c = email_r rd, password_c = []\<rparr>,
                                  isLoading_lv := False\<rparr>,
                               [req, Alert alert_registered])
                         else (lv\<lparr>isLoading_lv := False\<rparr>,
                               [req, Alert (''Erro no cadastro: '' @
                                  detail_l_or d ''Erro desconhecido no cadastro.'')])))))"

text \<open>\<open>handleGoogleSuccess\<close>: \<open>userData\<close> is the serialised payload of the mock login.\<close>

definition handleGoogleSuccess ::
  "login_view \<Rightarrow> string \<Rightarrow> login_data fetch_result \<Rightarrow> login_view \<times> effect list" where
  "handleGoogleSuccess lv userData r =
     (let req = Fetch \<lparr>http_method = ''POST'', path = ''/api/login/google'', bearer = None,
                  body = GoogleBody userData\<rparr>;
          failed = (lv\<lparr>isLoading_lv := False\<rparr>,
                    [req, Alert ''Erro de conexao com Google. Tente novamente.''])
      in (case r of
            Rejected m \<Rightarrow> failed
          | Resolved resp \<Rightarrow>
              (case body_json resp of
                 Inl m \<Rightarrow> failed
               | Inr d \<Rightarrow>
                   if ok resp
                   then (lv\<lparr>isLoading_lv := False\<rparr>,
                         [req, OnLoginSuccess (user_d d) (access_token d)])
                   else (lv\<lparr>isLoading_lv := False\<rparr>,
                         [req, Alert (''Erro no login com Google: '' @
                            detail_l_or d ''Erro desconhecido.'')]))))"

section \<open>The four containers side by side\<close>

text \<open>
  The repository holds four versions of \<open>AskFileSystem\<close>; \<open>variant\<close> names them so
  that a property can be stated for each handler of each version.
\<close>

datatype variant = App | Session | Auth | NoAuth

definition handleSendMessage ::
  "variant \<Rightarrow> app_state \<Rightarrow> chat_env \<Rightarrow> app_state \<times> effect list" where
  "handleSendMessage v =
     (case v of App \<Rightarrow> handleSendMessage_App | Session \<Rightarrow> handleSendMessage_session
      | Auth \<Rightarrow> handleSendMessage_auth | NoAuth \<Rightarrow> handleSendMessage_noauth)"

definition handleFileUpload ::
  "variant \<Rightarrow> app_state \<Rightarrow> js_file option \<Rightarrow> upload_env \<Rightarrow> app_state \<times> effect list" where
  "handleFileUpload v =
     (case v of App \<Rightarrow> handleFileUpload_App | Session \<Rightarrow> handleFileUpload_session
      | Auth \<Rightarrow> handleFileUpload_auth | NoAuth \<Rightarrow> handleFileUpload_noauth)"

definition fetchUserHistory ::
  "variant \<Rightarrow> app_state \<Rightarrow> history_data fetch_result \<Rightarrow> app_state \<times> effect list" where
  "fetchUserHistory v =
     (case v of App \<Rightarrow> fetchUserHistory_App | Session \<Rightarrow> fetchUserHistory_session
      | Auth \<Rightarrow> fetchUserHistory_auth | NoAuth \<Rightarrow> fetchUserHistory_noauth)"

definition handleLogout ::
  "variant \<Rightarrow> app_state \<Rightarrow> bool \<Rightarrow> unit fetch_result \<Rightarrow> app_state \<times> effect list" where
  "handleLogout v s confirmClear r =
     (case v of App \<Rightarrow> handleLogout_App s confirmClear r
      | Session \<Rightarrow> handleLogout_session s confirmClear r
      | Auth \<Rightarrow> handleLogout_auth s | NoAuth \<Rightarrow> handleLogout_noauth s)"

definition initial_view :: "variant \<Rightarrow> string" where
  "initial_view v =
     (case v of App \<Rightarrow> currentView (initial_App Map.empty [])
      | Session \<Rightarrow> currentView (initial_App Map.empty [])
      | Auth \<Rightarrow> currentView (initial_auth Map.empty)
      | NoAuth \<Rightarrow> currentView (initial_noauth Map.empty))"

text \<open>A request has failed when it was rejected or answered outside 200..299.\<close>

definition failed :: "'a fetch_result \<Rightarrow> bool" where
  "failed r = (case r of Rejected m \<Rightarrow> True | Resolved resp \<Rightarrow> \<not> ok resp)"

text \<open>
  The history list a fetch result carries: the list of the response, and the empty
  list when the request failed, the body could not be parsed or it has no list.
\<close>

definition fetched_history :: "history_data fetch_result \<Rightarrow> history_entry list" where
  "fetched_history r =
     (case r of
        Rejected m \<Rightarrow> []
      | Resolved resp \<Rightarrow>
          if ok resp
          then (case body_json resp of
                  Inl m \<Rightarrow> []
                | Inr d \<Rightarrow> (case history d of None \<Rightarrow> [] | Some h \<Rightarrow> h))
          else [])"

text \<open>
  A sequence of questions: each is typed into the input, then sent, and the handler
  runs to its end before the next one.
\<close>

fun send_all :: "app_state \<Rightarrow> (string \<times> chat_env) list \<Rightarrow> app_state" where
  "send_all s [] = s"
| "send_all s ((q, env) # rest) =
     send_all (fst (handleSendMessage_App (handleInputChange s q) env)) rest"

section \<open>Sample inputs\<close>

definition sample_pdf :: js_file where
  "sample_pdf = \<lparr>name_f = ''report.pdf'', type_f = ''application/pdf''\<rparr>"

definition sample_txt :: js_file where
  "sample_txt = \<lparr>name_f = ''notes.txt'', type_f = ''text/plain''\<rparr>"

definition upload_ok :: upload_env where
  "upload_ok =
     \<lparr>now_upload = ''2025-01-01T10:00:00.000Z'',
      upload_result = Resolved (Response 200 ''OK'' []
        (Inr (UploadData (Some ''f42'') (Some ''A report.'') (Some True) None)))\<rparr>"

definition chat_ok :: chat_env where
  "chat_ok =
     \<lparr>now_user = ''10:00:01'', now_bot = ''10:00:02'',
      chat_result = Resolved (Response 200 ''OK'' []
        (Inr (ChatData (Some ''It is a report.'') (Some [''page 1'']))))\<rparr>"

definition chat_500 :: chat_env where
  "chat_500 =
     \<lparr>now_user = ''10:00:03'', now_bot = ''10:00:04'',
      chat_result = Resolved (Response 500 ''Internal Server Error'' ''boom'' (Inl ''bad json''))\<rparr>"

definition chat_401 :: chat_env where
  "chat_401 =
     \<lparr>now_user = ''10:00:05'', now_bot = ''10:00:06'',
      chat_result = Resolved (Response 401 ''Unauthorized'' [] (Inl ''bad json''))\<rparr>"

definition history_500 :: "history_data fetch_result" where
  "history_500 = Resolved (Response 500 ''Internal Server Error'' [] (Inl ''bad json''))"

definition history_401 :: "history_data fetch_result" where
  "history_401 = Resolved (Response 401 ''Unauthorized'' [] (Inl ''bad json''))"

definition history_ok :: "history_data fetch_result" where
  "history_ok =
     Resolved (Response 200 ''OK'' []
       (Inr (HistoryData (Some [HistoryEntry ''What is it?'' ''A report.'' ''t0'' []]))))"

text \<open>A fresh anonymous session, and the same session after a document was uploaded.\<close>

definition fresh_App :: app_state where
  "fresh_App = initial_App Map.empty ''user_1_abc''"

definition ready_App :: app_state where
  "ready_App = fst (handleFileUpload_App fresh_App (Some sample_pdf) upload_ok)"

text \<open>
  The token-authenticated container as the load effect leaves it when a token and a
  user are stored, on the history view, with suggestions on display.
\<close>

definition logged_in :: app_state where
  "logged_in =
     (initial_auth [''token'' \<mapsto> ''tok'', ''user'' \<mapsto> ''ana''])
       \<lparr>user_st := Some \<lparr>user_email = ''ana@example.com'', user_name = ''Ana''\<rparr>,
        currentView := ''history'',
        suggestions := [''Resuma os principais pontos do documento'']\<rparr>"

definition sample_form :: login_view where
  "sample_form =
     \<lparr>credentials = \<lparr>email_c = [], password_c = []\<rparr>,
      registerData = \<lparr>name_r = ''Ana'', email_r = ''ana@example.com'',
                      password_r = ''secret1'', confirmPassword = ''secret1''\<rparr>,
      loginMode = ''register'', isLoading_lv = False\<rparr>"

definition login_500 :: "login_data fetch_result" where
  "login_500 =
     Resolved (Response 500 ''Internal Server Error'' [] (Inr (LoginData None None None)))"

section \<open>Reading the effects\<close>

lemmas handleSendMessage_defs =
  handleSendMessage_def handleSendMessage_App_def handleSendMessage_session_def
  handleSendMessage_auth_def handleSendMessage_noauth_def

lemmas handleFileUpload_defs =
  handleFileUpload_def handleFileUpload_App_def handleFileUpload_session_def
  handleFileUpload_auth_def handleFileUpload_noauth_def

lemmas fetchUserHistory_defs =
  fetchUserHistory_def fetchUserHistory_App_def fetchUserHistory_session_def
  fetchUserHistory_auth_def fetchUserHistory_noauth_def

lemmas handleLogout_defs =
  handleLogout_def handleLogout_App_def handleLogout_session_def
  handleLogout_auth_def handleLogout_noauth_def

lemma alerts_simps [simp]:
  "alerts [] = []"
  "alerts (Alert a # es) = a # alerts es"
  "alerts (Fetch q # es) = alerts es"
  "alerts (OnLoginSuccess u t # es) = alerts es"
  "alerts (Reload # es) = alerts es"
  by (simp_all add: alerts_def)

lemma fetches_simps [simp]:
  "fetches [] = []"
  "fetches (Alert a # es) = fetches es"
  "fetches (Fetch q # es) = q # fetches es"
  "fetches (OnLoginSuccess u t # es) = fetches es"
  "fetches (Reload # es) = fetches es"
  by (simp_all add: fetches_def)

lemma ready_App_eq:
  "ready_App = fresh_App\<lparr>uploadedFile :=
     Some \<lparr>id_file = Some ''f42'', name_file = ''report.pdf'', summary = Some ''A report.'',
           uploadDate = ''2025-01-01T10:00:00.000Z'', isTemporary = Some True\<rparr>\<rparr>"
  by (simp add: ready_App_def handleFileUpload_App_def sample_pdf_def upload_ok_def Let_def
      upload_try_App_def ok_def file_removed_or_false_def fresh_App_def initial_App_def)

section \<open>Sending a message\<close>

text \<open>
  C1, as amended. In every variant \<open>handleSendMessage\<close> leaves the whole state, and so
  the transcript, as it was and issues no request whenever the trimmed message is empty,
  \<open>isLoading\<close> is set or no file descriptor is present. The alert is raised by the
  third guard only: it appears exactly when the file is missing while the message is
  not blank and no request is in flight.
\<close>

theorem C1_send_blocked:
  assumes "trim (currentMessage s) = [] \<or> isLoading s \<or> uploadedFile s = None"
  shows "fst (handleSendMessage v s env) = s
    \<and> fetches (snd (handleSendMessage v s env)) = []
    \<and> alerts (snd (handleSendMessage v s env)) =
        (if trim (currentMessage s) \<noteq> [] \<and> \<not> isLoading s then [alert_no_file] else [])"
  using assms by (cases v) (auto simp: handleSendMessage_defs)

theorem C1_send_blocked_witness:
  "uploadedFile (handleInputChange fresh_App ''hi'') = None
   \<and> fst (handleSendMessage App (handleInputChange fresh_App ''hi'') chat_ok) =
       handleInputChange fresh_App ''hi''
   \<and> fetches (snd (handleSendMessage App (handleInputChange fresh_App ''hi'') chat_ok)) = []
   \<and> alerts (snd (handleSendMessage App (handleInputChange fresh_App ''hi'') chat_ok)) =
       [alert_no_file]"
proof -
  have u: "uploadedFile (handleInputChange fresh_App ''hi'') = None"
    by (simp add: handleInputChange_def fresh_App_def initial_App_def)
  have t: "trim (currentMessage (handleInputChange fresh_App ''hi'')) \<noteq> []"
    by (simp add: handleInputChange_def trim_def isWhiteSpace_def)
  have l: "\<not> isLoading (handleInputChange fresh_App ''hi'')"
    by (simp add: handleInputChange_def fresh_App_def initial_App_def)
  from C1_send_blocked [of "handleInputChange fresh_App ''hi''" App chat_ok] u t l
  show ?thesis by simp
qed

text \<open>
  C1 as written asks for the alert in every state without a file. In a fresh session
  the message is empty, the first guard returns, and nothing is shown.
\<close>

theorem C1_no_alert_counterexample:
  "uploadedFile fresh_App = None
   \<and> alerts (snd (handleSendMessage App fresh_App chat_ok)) = []"
  by (simp add: fresh_App_def initial_App_def handleSendMessage_defs trim_def)

lemma send_button_disabled_blocks:
  "send_button_disabled s \<Longrightarrow> handleSendMessage v s env = (s, [])
     \<or> handleSendMessage v s env = (s, [Alert alert_no_file])"
  by (cases v) (auto simp: send_button_disabled_def handleSendMessage_defs)

lemma chat_try_App_failed: "failed r \<Longrightarrow> \<exists>m. chat_try_App r = Inl m"
  by (cases r) (simp_all add: failed_def chat_try_App_def)

lemma chat_try_session_failed: "failed r \<Longrightarrow> \<exists>m. chat_try_session r = Inl m"
  by (cases r) (simp_all add: failed_def chat_try_session_def)

text \<open>
  C4. When the chat request of \<open>App.js\<close> fails, by rejection or by a status outside
  200..299, the transcript after \<open>handleSendMessage\<close> is the transcript before it
  followed by the user's message, as built at send time, and by one bot message with
  the error flag: nothing else is added and no earlier entry changes.
\<close>

theorem C4_failed_chat:
  assumes "trim (currentMessage s) \<noteq> []" and "\<not> isLoading s" and "uploadedFile s \<noteq> None"
    and "failed (chat_result env)"
  shows "(\<exists>e. chatMessages (fst (handleSendMessage_App s env)) =
              chatMessages s @ [newUserMessage s (now_user env), e]
            \<and> sender e = Bot \<and> isError e)
    \<and> sender (newUserMessage s (now_user env)) = User
    \<and> text_msg (newUserMessage s (now_user env)) = Some (currentMessage s)
    \<and> \<not> isError (newUserMessage s (now_user env))"
proof -
  from assms(4) obtain m where m: "chat_try_App (chat_result env) = Inl m"
    using chat_try_App_failed by blast
  from assms(3) obtain f where f: "uploadedFile s = Some f" by auto
  show ?thesis
    using assms(1,2) m f
    by (simp add: handleSendMessage_App_def Let_def errorMessage_def newUserMessage_def)
qed

theorem C4_failed_chat_witness:
  "failed (chat_result chat_500)
   \<and> map sender
       (chatMessages (fst (handleSendMessage_App (handleInputChange ready_App ''hi'') chat_500)))
       = [User, Bot]
   \<and> map isError
       (chatMessages (fst (handleSendMessage_App (handleInputChange ready_App ''hi'') chat_500)))
       = [False, True]"
proof -
  let ?s = "handleInputChange ready_App ''hi''"
  have h: "trim (currentMessage ?s) \<noteq> []" "\<not> isLoading ?s" "uploadedFile ?s \<noteq> None"
    "chatMessages ?s = []"
    by (simp_all add: ready_App_eq handleInputChange_def trim_def isWhiteSpace_def
        fresh_App_def initial_App_def)
  have f: "failed (chat_result chat_500)"
    by (simp add: chat_500_def failed_def ok_def)
  from C4_failed_chat [OF h(1) h(2) h(3) f] h(4) f
  show ?thesis by (auto simp: newUserMessage_def)
qed

text \<open>
  The same holds in the other three variants, except that the token-authenticated one
  answers status 401 with a forced logout instead of an error message.
\<close>

lemma failed_chat_other_variants:
  assumes "trim (currentMessage s) \<noteq> []" and "\<not> isLoading s" and "uploadedFile s \<noteq> None"
    and "failed (chat_result env)"
    and "v = Auth \<Longrightarrow> \<forall>resp. chat_result env = Resolved resp \<longrightarrow> status resp \<noteq> 401"
  shows "\<exists>e. chatMessages (fst (handleSendMessage v s env)) =
            chatMessages s @ [newUserMessage s (now_user env), e]
          \<and> sender e = Bot \<and> isError e"
proof -
  from assms(3) obtain f where f: "uploadedFile s = Some f" by auto
  show ?thesis
  proof (cases v)
    case App
    from assms(4) obtain m where "chat_try_App (chat_result env) = Inl m"
      using chat_try_App_failed by blast
    with App assms(1,2) f show ?thesis
      by (simp add: handleSendMessage_defs Let_def errorMessage_def)
  next
    case Session
    from assms(4) obtain m where "chat_try_session (chat_result env) = Inl m"
      using chat_try_session_failed by blast
    with Session assms(1,2) f show ?thesis
      by (simp add: handleSendMessage_defs Let_def errorMessage_def)
  next
    case NoAuth
    from assms(4) obtain m where "chat_try_session (chat_result env) = Inl m"
      using chat_try_session_failed by blast
    with NoAuth assms(1,2) f show ?thesis
      by (simp add: handleSendMessage_defs Let_def errorMessage_def)
  next
    case Auth
    with assms(1,2,4,5) f show ?thesis
      by (cases "chat_result env")
        (simp_all add: handleSendMessage_defs Let_def errorMessage_def failed_def)
  qed
qed

section \<open>Uploading a file\<close>

lemma type_guard_001_never: "\<not> type_guard_001 f"
  by (simp add: type_guard_001_def js_not_def)

lemma handleFileUpload_checked_rejects:
  assumes "type_f f \<noteq> ''application/pdf''" and "v = App \<or> v = Session"
  shows "handleFileUpload v s (Some f) env = (s, [Alert alert_only_pdf])"
  using assms by (auto simp: handleFileUpload_defs)

lemma handleFileChange_rejects:
  assumes "type_f f \<noteq> ''application/pdf''"
  shows "handleFileChange (handleFileUpload v) s (Some f) env = (s, [Alert alert_only_pdf_view])"
  using assms by (simp add: handleFileChange_def)

lemma handleFileUpload_001_requests:
  assumes "v = Auth \<or> v = NoAuth"
  shows "fetches (snd (handleFileUpload v s (Some f) env)) \<noteq> []"
  using assms
  by (auto simp: handleFileUpload_defs type_guard_001_never Let_def split: sum.splits)

text \<open>
  C2 at a text file in the token-authenticated variant: the guard of part 001 never
  holds, so \<open>handleFileUpload\<close> posts the file to \<open>/api/upload\<close>, shows no type alert
  and records the file as uploaded.
\<close>

theorem C2_non_pdf_uploaded:
  "type_f sample_txt \<noteq> ''application/pdf''
   \<and> map path (fetches (snd (handleFileUpload Auth logged_in (Some sample_txt) upload_ok)))
       = [''/api/upload'']
   \<and> alert_only_pdf
       \<notin> set (alerts (snd (handleFileUpload Auth logged_in (Some sample_txt) upload_ok)))
   \<and> map_option name_file
         (uploadedFile (fst (handleFileUpload Auth logged_in (Some sample_txt) upload_ok)))
       = Some ''notes.txt''"
  by (simp add: handleFileUpload_defs type_guard_001_never Let_def sample_txt_def upload_ok_def
     upload_try_parsed_def ok_def alert_only_pdf_def alert_upload_ok_def)

text \<open>
  C3, as amended. After a successful upload (status in 200..299, body parsed, non-empty
  \<open>file_id\<close>) of a PDF file, whatever the transcript was, it is empty and the descriptor
  has the identifier and summary of the response and the name of the selected file. In
  the anonymous-session variants the descriptor also carries the temporary flag of the
  response and the suggestions are reset; in the token-authenticated variant and the
  one without authentication the descriptor has no temporary flag and the suggestions
  stay as they were.
\<close>

theorem C3_upload_success:
  assumes "type_f f = ''application/pdf''"
    and "upload_result env = Resolved resp" and "ok resp"
    and "body_json resp = Inr d" and "truthy_str (file_id d)"
  shows "chatMessages (fst (handleFileUpload v s (Some f) env)) = []
    \<and> uploadedFile (fst (handleFileUpload v s (Some f) env)) =
        Some \<lparr>id_file = file_id d, name_file = name_f f, summary = summary_d d,
              uploadDate = now_upload env,
              isTemporary = (if v = App \<or> v = Session then Some (file_removed_or_false d)
                             else None)\<rparr>
    \<and> suggestions (fst (handleFileUpload v s (Some f) env)) =
        (if v = App \<or> v = Session then [] else suggestions s)"
  using assms
  by (cases v)
    (simp_all add: handleFileUpload_defs type_guard_001_never Let_def upload_try_App_def
       upload_try_parsed_def)

theorem C3_upload_success_witness:
  "length (chatMessages (send_all ready_App [(''hi'', chat_ok)])) = 2
   \<and> chatMessages (fst (handleFileUpload App (send_all ready_App [(''hi'', chat_ok)])
       (Some sample_pdf) upload_ok)) = []
   \<and> uploadedFile (fst (handleFileUpload App (send_all ready_App [(''hi'', chat_ok)])
       (Some sample_pdf) upload_ok)) =
       Some \<lparr>id_file = Some ''f42'', name_file = ''report.pdf'', summary = Some ''A report.'',
             uploadDate = ''2025-01-01T10:00:00.000Z'', isTemporary = Some True\<rparr>
   \<and> suggestions (fst (handleFileUpload App (send_all ready_App [(''hi'', chat_ok)])
       (Some sample_pdf) upload_ok)) = []"
proof -
  have prior: "length (chatMessages (send_all ready_App [(''hi'', chat_ok)])) = 2"
    by (simp add: ready_App_eq fresh_App_def initial_App_def handleInputChange_def
        handleSendMessage_App_def Let_def trim_def isWhiteSpace_def chat_ok_def
        chat_try_App_def ok_def)
  from C3_upload_success [of sample_pdf upload_ok
      "Response 200 ''OK'' [] (Inr (UploadData (Some ''f42'') (Some ''A report.'') (Some True) None))"
      "UploadData (Some ''f42'') (Some ''A report.'') (Some True) None" App
      "send_all ready_App [(''hi'', chat_ok)]"] prior
  show ?thesis
    by (simp add: sample_pdf_def upload_ok_def ok_def file_removed_or_false_def)
qed

text \<open>
  C3 as written fails in the token-authenticated variant: after a successful upload
  the suggestions on display are still there and the descriptor has no temporary flag.
\<close>

theorem C3_suggestions_kept_counterexample:
  "ok (Response 200 ''OK'' []
        (Inr (UploadData (Some ''f42'') (Some ''A report.'') (Some True) None)))
   \<and> suggestions (fst (handleFileUpload Auth logged_in (Some sample_pdf) upload_ok))
       = [''Resuma os principais pontos do documento'']
   \<and> map_option isTemporary
         (uploadedFile (fst (handleFileUpload Auth logged_in (Some sample_pdf) upload_ok)))
       = Some None"
  by (simp add: handleFileUpload_defs type_guard_001_never Let_def sample_pdf_def upload_ok_def
     upload_try_parsed_def ok_def logged_in_def initial_auth_def)

section \<open>The history mirror\<close>

lemma history_try_App_fetched:
  "(case history_try_App r of Inr d \<Rightarrow> history_or_empty d | Inl m \<Rightarrow> []) = fetched_history r"
  by (cases r) (simp_all add: history_try_App_def fetched_history_def history_or_empty_def
      split: sum.splits)

text \<open>
  C5. Mounting \<open>HistoryView\<close> in \<open>App.js\<close> issues the history request, and after it the
  mirror is the list the fetch result carries (the empty list when the request failed):
  it does not depend on what the mirror held before.
\<close>

theorem C5_history_replaced:
  "fetches (snd (HistoryView_mount (Some fetchUserHistory_App) s r)) \<noteq> []
   \<and> userHistory (fst (HistoryView_mount (Some fetchUserHistory_App) s r))
       = Some (fetched_history r)
   \<and> userHistory (fst (HistoryView_mount (Some fetchUserHistory_App) (s\<lparr>userHistory := h\<rparr>) r))
       = userHistory (fst (HistoryView_mount (Some fetchUserHistory_App) s r))"
proof -
  have "userHistory (fst (fetchUserHistory_App s' r)) = Some (fetched_history r)
      \<and> fetches (snd (fetchUserHistory_App s' r)) \<noteq> []" for s'
    using history_try_App_fetched [of r]
    by (simp add: fetchUserHistory_App_def Let_def split: sum.splits)
  then show ?thesis by (simp add: HistoryView_mount_def)
qed

theorem C5_history_replaced_witness:
  "userHistory (fst (HistoryView_mount (Some fetchUserHistory_App)
       (fst (fetchUserHistory_App fresh_App history_ok)) history_500)) = Some []
   \<and> userHistory (fst (HistoryView_mount (Some fetchUserHistory_App)
       (fst (fetchUserHistory_App fresh_App history_500)) history_ok))
      = Some [HistoryEntry ''What is it?'' ''A report.'' ''t0'' []]"
  using C5_history_replaced [of "fst (fetchUserHistory_App fresh_App history_ok)" history_500]
    C5_history_replaced [of "fst (fetchUserHistory_App fresh_App history_500)" history_ok]
  by (simp add: fetched_history_def history_500_def history_ok_def ok_def)

lemma history_replaced_all_variants:
  "userHistory (fst (fetchUserHistory v (s\<lparr>userHistory := h\<rparr>) r))
     = (if v = Auth \<and> user_st s = None then h else userHistory (fst (fetchUserHistory v s r)))"
  by (cases v) (simp_all add: fetchUserHistory_defs Let_def split: sum.splits)

section \<open>Logout and new session\<close>

text \<open>
  C6, as amended. A confirmed logout empties the transcript and clears the file
  descriptor in every variant. In the token-authenticated variant it also clears the
  user record, removes the stored token and user, and sets the view to the initial one,
  the login view. In the other variants the view is left as it was. A confirmed new
  session reloads the page: the state is the initial one, with the initial view, an
  empty transcript, no file and a newly generated session identifier.
\<close>

theorem C6_logout:
  assumes "confirmClear"
  shows "chatMessages (fst (handleLogout v s confirmClear r)) = []
    \<and> uploadedFile (fst (handleLogout v s confirmClear r)) = None
    \<and> (if v = Auth
        then user_st (fst (handleLogout v s confirmClear r)) = None
           \<and> localStorage (fst (handleLogout v s confirmClear r)) ''token'' = None
           \<and> localStorage (fst (handleLogout v s confirmClear r)) ''user'' = None
           \<and> currentView (fst (handleLogout v s confirmClear r)) = initial_view Auth
        else currentView (fst (handleLogout v s confirmClear r)) = currentView s)
    \<and> chatMessages (fst (handleNewSession s confirmClear fresh)) = []
    \<and> uploadedFile (fst (handleNewSession s confirmClear fresh)) = None
    \<and> currentView (fst (handleNewSession s confirmClear fresh)) = initial_view Session
    \<and> userSessionId (fst (handleNewSession s confirmClear fresh)) = fresh"
  using assms
  by (cases v)
    (simp_all add: handleLogout_defs initial_view_def initial_auth_def initial_App_def
      handleNewSession_def Let_def)

theorem C6_logout_witness:
  "chatMessages (fst (handleLogout Auth (logged_in\<lparr>chatMessages := [newUserMessage logged_in ''t'']\<rparr>)
       True (Rejected ''offline''))) = []
   \<and> user_st (fst (handleLogout Auth (logged_in\<lparr>chatMessages := [newUserMessage logged_in ''t'']\<rparr>)
       True (Rejected ''offline''))) = None
   \<and> currentView (fst (handleLogout App (send_all ready_App [(''hi'', chat_ok)])
       True (Rejected ''offline''))) = ''chat''"
proof -
  have v: "currentView (send_all ready_App [(''hi'', chat_ok)]) = ''chat''"
    by (simp add: ready_App_eq fresh_App_def initial_App_def handleInputChange_def
        handleSendMessage_App_def Let_def trim_def isWhiteSpace_def split: sum.splits)
  from C6_logout [of True Auth "logged_in\<lparr>chatMessages := [newUserMessage logged_in ''t'']\<rparr>"
      "Rejected ''offline''" "''u2''"]
    C6_logout [of True App "send_all ready_App [(''hi'', chat_ok)]" "Rejected ''offline''" "''u2''"] v
  show ?thesis by simp
qed

text \<open>
  C6 as written fails in \<open>App.js\<close> when the view is the history view: the handler
  does not touch \<open>currentView\<close>, whose initial value is the chat view.
\<close>

theorem C6_view_kept_counterexample:
  "currentView (fst (handleLogout App (handleViewChange ready_App ''history'') True
       (Rejected ''offline''))) = ''history''
   \<and> initial_view App = ''chat''"
  by (simp add: handleLogout_defs handleViewChange_def initial_view_def initial_App_def)

lemma logout_from_ChatView:
  assumes "confirmClear" and "v \<noteq> Auth"
    and "currentView s = ''chat''"
  shows "currentView (fst (handleLogout v s confirmClear r)) = initial_view v"
  using assms
  by (cases v) (simp_all add: handleLogout_defs initial_view_def initial_App_def initial_noauth_def)

section \<open>Responses outside 200..299\<close>

lemma upload_try_App_not_ok:
  "\<not> ok resp \<Longrightarrow> \<exists>m. upload_try_App (Resolved resp) = Inl m"
  by (simp add: upload_try_App_def)

lemma upload_try_parsed_not_ok:
  "\<not> ok resp \<Longrightarrow> \<exists>m. upload_try_parsed (Resolved resp) = Inl m"
  by (simp add: upload_try_parsed_def split: sum.splits)

lemma history_try_App_not_ok:
  "\<not> ok resp \<Longrightarrow> \<exists>m. history_try_App (Resolved resp) = Inl m"
  by (simp add: history_try_App_def)

lemma history_try_plain_not_ok:
  "\<not> ok resp \<Longrightarrow> \<exists>m. history_try_plain (Resolved resp) = Inl m"
  by (simp add: history_try_plain_def)

lemma upload_not_ok_alert:
  assumes "\<not> ok ru" and "type_f f = ''application/pdf''" and "upload_result uenv = Resolved ru"
  shows "\<exists>m. alerts (snd (handleFileUpload v s (Some f) uenv)) = [alert_upload_failed m]"
proof (cases "v = App")
  case True
  from assms(1) obtain m where "upload_try_App (Resolved ru) = Inl m"
    using upload_try_App_not_ok by blast
  with True assms(2,3) show ?thesis
    by (auto simp: handleFileUpload_defs Let_def)
next
  case False
  from assms(1) obtain m where "upload_try_parsed (Resolved ru) = Inl m"
    using upload_try_parsed_not_ok by blast
  with False assms(2,3) show ?thesis
    by (cases v) (auto simp: handleFileUpload_defs Let_def type_guard_001_never)
qed

lemma history_not_ok_silent:
  assumes "\<not> ok rh"
  shows "alerts (snd (fetchUserHistory v s (Resolved rh))) = []
    \<and> (fetches (snd (fetchUserHistory v s (Resolved rh))) \<noteq> [] \<longrightarrow>
         userHistory (fst (fetchUserHistory v s (Resolved rh))) = Some [])"
proof -
  from assms obtain m where "history_try_App (Resolved rh) = Inl m"
    using history_try_App_not_ok by blast
  moreover from assms obtain m' where "history_try_plain (Resolved rh) = Inl m'"
    using history_try_plain_not_ok by blast
  ultimately show ?thesis
    by (cases v) (simp_all add: fetchUserHistory_defs Let_def)
qed

lemma chat_not_ok_surfaced:
  assumes "\<not> ok rc" and "chat_result cenv = Resolved rc"
    and "trim (currentMessage s) \<noteq> []" and "\<not> isLoading s" and "uploadedFile s \<noteq> None"
  shows "if v = Auth \<and> status rc = 401
         then alert_session_expired \<in> set (alerts (snd (handleSendMessage v s cenv)))
         else alerts (snd (handleSendMessage v s cenv)) = []
            \<and> chatMessages (fst (handleSendMessage v s cenv)) \<noteq> []
            \<and> isError (last (chatMessages (fst (handleSendMessage v s cenv))))"
proof (cases "v = Auth \<and> status rc = 401")
  case True
  from assms(5) obtain f where "uploadedFile s = Some f" by auto
  with True assms(1-4) show ?thesis
    by (simp add: handleSendMessage_defs Let_def handleLogout_auth_def)
next
  case False
  have f: "failed (chat_result cenv)" using assms(1,2) by (simp add: failed_def)
  have a: "v = Auth \<Longrightarrow> \<forall>resp. chat_result cenv = Resolved resp \<longrightarrow> status resp \<noteq> 401"
    using False assms(2) by simp
  from failed_chat_other_variants [OF assms(3,4,5) f a]
  obtain e where e: "chatMessages (fst (handleSendMessage v s cenv)) =
      chatMessages s @ [newUserMessage s (now_user cenv), e]" "isError e" by blast
  from assms(5) obtain fl where fl: "uploadedFile s = Some fl" by auto
  have "alerts (snd (handleSendMessage v s cenv)) = []"
    using False assms(1-4) fl
    by (cases v)
      (auto simp: handleSendMessage_defs Let_def chat_try_App_def chat_try_session_def
        split: sum.splits)
  with e False show ?thesis by auto
qed

lemma validateLoginForm_effects:
  "validateLoginForm lv = (b, es) \<Longrightarrow>
     fetches es = [] \<and> (if b then es = [] else (\<exists>a. es = [Alert a]))"
  by (auto simp: validateLoginForm_def split: if_splits)

lemma validateRegisterForm_effects:
  "validateRegisterForm lv = (b, es) \<Longrightarrow>
     fetches es = [] \<and> (if b then es = [] else (\<exists>a. es = [Alert a]))"
  by (auto simp: validateRegisterForm_def Let_def split: if_splits)

lemma login_not_ok_alert:
  assumes "\<not> ok rl"
  shows "(fetches (snd (handleLogin lv (Resolved rl))) = [] \<or>
           (\<exists>a. alerts (snd (handleLogin lv (Resolved rl))) = [a]))
    \<and> (fetches (snd (handleRegister lv (Resolved rl))) = [] \<or>
           (\<exists>a. alerts (snd (handleRegister lv (Resolved rl))) = [a]))
    \<and> (\<exists>a. alerts (snd (handleGoogleSuccess lv g (Resolved rl))) = [a])"
proof -
  obtain b es where l: "validateLoginForm lv = (b, es)" by (cases "validateLoginForm lv")
  obtain b' es' where r: "validateRegisterForm lv = (b', es')"
    by (cases "validateRegisterForm lv")
  have 1: "fetches (snd (handleLogin lv (Resolved rl))) = [] \<or>
           (\<exists>a. alerts (snd (handleLogin lv (Resolved rl))) = [a])"
    using assms l validateLoginForm_effects [OF l]
    by (auto simp: handleLogin_def Let_def split: sum.splits)
  have 2: "fetches (snd (handleRegister lv (Resolved rl))) = [] \<or>
           (\<exists>a. alerts (snd (handleRegister lv (Resolved rl))) = [a])"
    using assms r validateRegisterForm_effects [OF r]
    by (auto simp: handleRegister_def Let_def split: sum.splits)
  have 3: "\<exists>a. alerts (snd (handleGoogleSuccess lv g (Resolved rl))) = [a]"
    using assms by (auto simp: handleGoogleSuccess_def Let_def split: sum.splits)
  from 1 2 3 show ?thesis by blast
qed

text \<open>
  C7, as amended. On a response outside 200..299: the upload shows one alert with the
  failure; the chat call shows no alert and ends the transcript with an error-flagged
  message, except that the token-authenticated variant answers 401 with the
  session-expired alert; the login, registration and Google login calls show one alert;
  the history fetch shows no alert and leaves the mirror empty; the history deletion of
  \<open>handleLogout\<close> shows its usual success message.
\<close>

theorem C7_failures_surfaced:
  assumes "\<not> ok ru" and "upload_result uenv = Resolved ru" and "type_f f = ''application/pdf''"
    and "\<not> ok rc" and "chat_result cenv = Resolved rc"
    and "trim (currentMessage s) \<noteq> []" and "\<not> isLoading s" and "uploadedFile s \<noteq> None"
    and "\<not> ok rh" and "\<not> ok rl" and "\<not> ok rd"
  shows "(\<exists>m. alerts (snd (handleFileUpload v s (Some f) uenv)) = [alert_upload_failed m])
    \<and> (if v = Auth \<and> status rc = 401
        then alert_session_expired \<in> set (alerts (snd (handleSendMessage v s cenv)))
        else alerts (snd (handleSendMessage v s cenv)) = []
           \<and> chatMessages (fst (handleSendMessage v s cenv)) \<noteq> []
           \<and> isError (last (chatMessages (fst (handleSendMessage v s cenv)))))
    \<and> alerts (snd (fetchUserHistory v s (Resolved rh))) = []
    \<and> (fetches (snd (fetchUserHistory v s (Resolved rh))) \<noteq> [] \<longrightarrow>
         userHistory (fst (fetchUserHistory v s (Resolved rh))) = Some [])
    \<and> alerts (snd (handleLogout_App s True (Resolved rd))) =
        [''Dados da sessao limpos com sucesso.'']
    \<and> (fetches (snd (handleLogin lv (Resolved rl))) = [] \<or>
           (\<exists>a. alerts (snd (handleLogin lv (Resolved rl))) = [a]))
    \<and> (fetches (snd (handleRegister lv (Resolved rl))) = [] \<or>
           (\<exists>a. alerts (snd (handleRegister lv (Resolved rl))) = [a]))
    \<and> (\<exists>a. alerts (snd (handleGoogleSuccess lv g (Resolved rl))) = [a])"
proof -
  note upload_not_ok_alert [OF assms(1,3,2), of v s]
  moreover note chat_not_ok_surfaced [OF assms(4,5,6,7,8), of v]
  moreover note history_not_ok_silent [OF assms(9), of v s]
  moreover note login_not_ok_alert [OF assms(10), of lv g]
  moreover have "alerts (snd (handleLogout_App s True (Resolved rd))) =
      [''Dados da sessao limpos com sucesso.'']"
    by (simp add: handleLogout_App_def)
  ultimately show ?thesis by blast
qed

theorem C7_failures_surfaced_witness:
  "(\<exists>m. alerts (snd (handleFileUpload App (handleInputChange ready_App ''hi'') (Some sample_pdf)
        \<lparr>now_upload = ''t'', upload_result =
           Resolved (Response 500 ''Internal Server Error'' ''boom'' (Inl ''bad json''))\<rparr>))
      = [alert_upload_failed m])
   \<and> isError (last (chatMessages
        (fst (handleSendMessage App (handleInputChange ready_App ''hi'') chat_500))))
   \<and> alerts (snd (fetchUserHistory App (handleInputChange ready_App ''hi'')
        (Resolved (Response 500 ''Internal Server Error'' ''boom'' (Inl ''bad json''))))) = []
   \<and> (\<exists>a. alerts (snd (handleGoogleSuccess sample_form ''g''
        (Resolved (Response 500 ''Internal Server Error'' [] (Inr (LoginData None None None))))))
      = [a])"
proof -
  let ?s = "handleInputChange ready_App ''hi''"
  have h: "trim (currentMessage ?s) \<noteq> []" "\<not> isLoading ?s" "uploadedFile ?s \<noteq> None"
    by (simp_all add: ready_App_eq handleInputChange_def trim_def isWhiteSpace_def
        fresh_App_def initial_App_def)
  have n: "\<not> ok (Response 500 ''Internal Server Error'' ''boom'' (Inl ''bad json''))" for x :: "string + 'a"
    by (simp add: ok_def)
  have n': "\<not> ok (Response 500 ''Internal Server Error'' [] (Inr (LoginData None None None)))"
    by (simp add: ok_def)
  have u: "upload_result \<lparr>now_upload = ''t'', upload_result =
           Resolved (Response 500 ''Internal Server Error'' ''boom'' (Inl ''bad json''))\<rparr>
      = Resolved (Response 500 ''Internal Server Error'' ''boom'' (Inl ''bad json''))"
    by simp
  have c: "chat_result chat_500
      = Resolved (Response 500 ''Internal Server Error'' ''boom'' (Inl ''bad json''))"
    by (simp add: chat_500_def)
  have p: "type_f sample_pdf = ''application/pdf''" by (simp add: sample_pdf_def)
  from C7_failures_surfaced [OF n u p n c h n n' n, of App sample_form "''g''"]
  show ?thesis by simp
qed

text \<open>
  C7 as written fails for the history call: a status 500 is logged to the console and
  no alert is shown.
\<close>

theorem C7_history_silent_counterexample:
  "failed history_500
   \<and> map path (fetches (snd (fetchUserHistory App fresh_App history_500)))
       = [''/api/history?user_email=user_1_abc@askfile.com'']
   \<and> alerts (snd (fetchUserHistory App fresh_App history_500)) = []"
  by (simp add: failed_def history_500_def ok_def fetchUserHistory_defs history_try_App_def
      Let_def defaultUser_email_def fresh_App_def initial_App_def)

section \<open>Status 401 in the token-authenticated variant\<close>

text \<open>
  C8 at a history fetch answered with status 401: the user record, the stored token
  and user, and the view are what they were, and nothing is shown.
\<close>

theorem C8_history_401_no_logout:
  "user_st (fst (fetchUserHistory Auth logged_in history_401)) = user_st logged_in
   \<and> user_st logged_in \<noteq> None
   \<and> localStorage (fst (fetchUserHistory Auth logged_in history_401)) ''token'' = Some ''tok''
   \<and> localStorage (fst (fetchUserHistory Auth logged_in history_401)) ''user'' = Some ''ana''
   \<and> currentView (fst (fetchUserHistory Auth logged_in history_401)) = ''history''
   \<and> alerts (snd (fetchUserHistory Auth logged_in history_401)) = []"
  by (simp add: fetchUserHistory_defs history_401_def history_try_plain_def ok_def Let_def
      logged_in_def initial_auth_def)

lemma chat_401_forces_logout:
  assumes "trim (currentMessage s) \<noteq> []" and "\<not> isLoading s" and "uploadedFile s \<noteq> None"
    and "chat_result env = Resolved resp" and "status resp = 401"
  shows "user_st (fst (handleSendMessage Auth s env)) = None
    \<and> localStorage (fst (handleSendMessage Auth s env)) ''token'' = None
    \<and> localStorage (fst (handleSendMessage Auth s env)) ''user'' = None
    \<and> currentView (fst (handleSendMessage Auth s env)) = ''login''
    \<and> chatMessages (fst (handleSendMessage Auth s env)) = []"
proof -
  from assms(3) obtain f where "uploadedFile s = Some f" by auto
  with assms(1,2,4,5) show ?thesis
    by (simp add: handleSendMessage_defs Let_def handleLogout_auth_def ok_def)
qed

lemma upload_401_no_logout:
  assumes "upload_result env = Resolved resp" and "status resp = 401"
  shows "user_st (fst (handleFileUpload Auth s (Some f) env)) = user_st s
    \<and> localStorage (fst (handleFileUpload Auth s (Some f) env)) = localStorage s
    \<and> currentView (fst (handleFileUpload Auth s (Some f) env)) = currentView s"
  using assms
  by (simp add: handleFileUpload_defs type_guard_001_never Let_def upload_try_parsed_def ok_def
      split: sum.splits)

section \<open>Message identifiers\<close>

text \<open>
  C9 after a failed question followed by a second question: the error message takes
  the identifier 3, and so does the next user message.
\<close>

theorem C9_duplicate_id:
  "map id_msg (chatMessages (send_all ready_App [(''a'', chat_500), (''b'', chat_ok)]))
     = [1, 3, 3, 4]
   \<and> \<not> distinct (map id_msg
         (chatMessages (send_all ready_App [(''a'', chat_500), (''b'', chat_ok)])))"
proof -
  have "map id_msg (chatMessages (send_all ready_App [(''a'', chat_500), (''b'', chat_ok)]))
     = [1, 3, 3, 4]"
    by (simp add: ready_App_eq fresh_App_def initial_App_def handleInputChange_def
        handleSendMessage_App_def Let_def trim_def isWhiteSpace_def chat_500_def chat_ok_def
        chat_try_App_def ok_def newUserMessage_def botMessage_def errorMessage_def)
  then show ?thesis by simp
qed

text \<open>As long as every request succeeds the identifiers count up from 1.\<close>

lemma send_ok_ids:
  assumes "map id_msg (chatMessages s) = [1..<Suc (length (chatMessages s))]"
    and "\<forall>(q, env) \<in> set evs. \<exists>d. chat_try_App (chat_result env) = Inr d"
  shows "map id_msg (chatMessages (send_all s evs))
           = [1..<Suc (length (chatMessages (send_all s evs)))]"
  using assms
proof (induction evs arbitrary: s)
  case Nil
  then show ?case by simp
next
  case (Cons ev evs)
  obtain q env where ev: "ev = (q, env)" by (cases ev)
  from Cons.prems(2) ev obtain d where d: "chat_try_App (chat_result env) = Inr d" by auto
  let ?s' = "fst (handleSendMessage_App (handleInputChange s q) env)"
  have c: "chatMessages (handleInputChange s q) = chatMessages s"
    by (simp add: handleInputChange_def)
  have "map id_msg (chatMessages ?s') = [1..<Suc (length (chatMessages ?s'))]"
    using Cons.prems(1) d c
    by (auto simp: handleSendMessage_App_def Let_def newUserMessage_def botMessage_def
        split: option.splits)
  moreover have "\<forall>(q, env) \<in> set evs. \<exists>d. chat_try_App (chat_result env) = Inr d"
    using Cons.prems(2) by simp
  ultimately show ?case
    using Cons.IH [of ?s'] ev by simp
qed

section \<open>Registration\<close>

text \<open>
  The matcher decides membership in the language of the expression, and the email
  expression accepts exactly the strings \<open>l@d.t\<close> whose three parts are non-empty and
  free of white space and of \<open>@\<close>.
\<close>

lemma nullable_lang: "nullable r \<longleftrightarrow> [] \<in> lang r"
  by (induction r) (auto intro: star.star_empty)

lemma star_cons:
  "c # w \<in> star A \<longleftrightarrow> (\<exists>u v. w = u @ v \<and> c # u \<in> A \<and> v \<in> star A)"
proof
  assume "c # w \<in> star A"
  then show "\<exists>u v. w = u @ v \<and> c # u \<in> A \<and> v \<in> star A"
  proof (induction "c # w" arbitrary: w rule: star.induct)
    case (star_more u v)
    then show ?case by (cases u) auto
  qed
next
  assume "\<exists>u v. w = u @ v \<and> c # u \<in> A \<and> v \<in> star A"
  then obtain u v where "w = u @ v" "c # u \<in> A" "v \<in> star A" by blast
  then show "c # w \<in> star A"
    using star.star_more [of "c # u" A v] by simp
qed

lemma seq_cons:
  "c # w \<in> lang (Seq a b) \<longleftrightarrow>
     (\<exists>u v. w = u @ v \<and> c # u \<in> lang a \<and> v \<in> lang b) \<or> ([] \<in> lang a \<and> c # w \<in> lang b)"
  by (auto simp: Cons_eq_append_conv)

lemma deriv_lang: "w \<in> lang (deriv c r) \<longleftrightarrow> c # w \<in> lang r"
proof (induction r arbitrary: w)
  case (Seq a b)
  then show ?case
    by (simp add: seq_cons nullable_lang del: lang.simps(5)) (auto simp: lang.simps(5))
next
  case (Many a)
  then show ?case by (simp add: star_cons)
qed auto

lemma test_re_lang: "test_re r w \<longleftrightarrow> w \<in> lang r"
  by (induction w arbitrary: r) (simp_all add: nullable_lang deriv_lang)


lemma star_Class:
  "star (lang (Class p)) = {w. \<forall>c \<in> set w. p c}"
proof (intro set_eqI iffI)
  fix w assume "w \<in> star (lang (Class p))"
  then show "w \<in> {w. \<forall>c \<in> set w. p c}"
    by (induction rule: star.induct) auto
next
  fix w assume "w \<in> {w. \<forall>c \<in> set w. p c}"
  then have "\<forall>c \<in> set w. p c" by simp
  then show "w \<in> star (lang (Class p))"
  proof (induction w)
    case Nil
    show ?case by (rule star.star_empty)
  next
    case (Cons c w)
    then have "[c] \<in> lang (Class p)" "w \<in> star (lang (Class p))" by simp_all
    then have "[c] @ w \<in> star (lang (Class p))" by (rule star.star_more)
    then show ?case by simp
  qed
qed

lemma lang_SeqI: "u \<in> lang a \<Longrightarrow> v \<in> lang b \<Longrightarrow> u @ v \<in> lang (Seq a b)"
  by auto

lemma lang_SeqE:
  assumes "w \<in> lang (Seq a b)"
  obtains u v where "w = u @ v" and "u \<in> lang a" and "v \<in> lang b"
  using assms by auto

lemma lang_OneOrMore_Class:
  "lang (OneOrMore (Class p)) = {w. w \<noteq> [] \<and> (\<forall>c \<in> set w. p c)}"
proof (intro set_eqI iffI)
  fix w assume "w \<in> lang (OneOrMore (Class p))"
  then have "w \<in> lang (Seq (Class p) (Many (Class p)))" by (simp only: OneOrMore_def)
  then obtain u v where w: "w = u @ v" and u: "u \<in> lang (Class p)"
    and v: "v \<in> lang (Many (Class p))" by (rule lang_SeqE)
  from u obtain c where "u = [c]" "p c" by auto
  moreover from v have "\<forall>x \<in> set v. p x" using star_Class [of p] by simp
  ultimately show "w \<in> {w. w \<noteq> [] \<and> (\<forall>c \<in> set w. p c)}" using w by simp
next
  fix w assume "w \<in> {w. w \<noteq> [] \<and> (\<forall>c \<in> set w. p c)}"
  then obtain c v where w: "w = [c] @ v" and "p c" and "\<forall>x \<in> set v. p x"
    by (cases w) auto
  then have "[c] \<in> lang (Class p)" and "v \<in> lang (Many (Class p))"
    using star_Class [of p] by simp_all
  then have "[c] @ v \<in> lang (Seq (Class p) (Many (Class p)))"
    by (rule lang_SeqI)
  with w show "w \<in> lang (OneOrMore (Class p))"
    by (simp only: OneOrMore_def)
qed

lemma lang_emailRegex:
  "e \<in> lang emailRegex \<longleftrightarrow>
     (\<exists>l d t. e = l @ ''@'' @ d @ ''.'' @ t
        \<and> l \<in> lang (OneOrMore (Class not_space_at))
        \<and> d \<in> lang (OneOrMore (Class not_space_at))
        \<and> t \<in> lang (OneOrMore (Class not_space_at)))"
proof
  let ?L = "OneOrMore (Class not_space_at)"
  let ?dot = "Class (\<lambda>c. c = CHR ''.'')"
  let ?at = "Class (\<lambda>c. c = CHR ''@'')"
  assume "e \<in> lang emailRegex"
  then have "e \<in> lang (Seq ?L (Seq ?at (Seq ?L (Seq ?dot ?L))))"
    by (simp only: emailRegex_def)
  then obtain l r1 where 1: "e = l @ r1" "l \<in> lang ?L" "r1 \<in> lang (Seq ?at (Seq ?L (Seq ?dot ?L)))"
    by (rule lang_SeqE)
  from 1(3) obtain a r2 where 2: "r1 = a @ r2" "a \<in> lang ?at" "r2 \<in> lang (Seq ?L (Seq ?dot ?L))"
    by (rule lang_SeqE)
  from 2(3) obtain d r3 where 3: "r2 = d @ r3" "d \<in> lang ?L" "r3 \<in> lang (Seq ?dot ?L)"
    by (rule lang_SeqE)
  from 3(3) obtain b t where 4: "r3 = b @ t" "b \<in> lang ?dot" "t \<in> lang ?L"
    by (rule lang_SeqE)
  from 2(2) have a: "a = ''@''" by simp
  from 4(2) have b: "b = ''.''" by simp
  have "e = l @ ''@'' @ d @ ''.'' @ t"
    by (simp only: 1(1) 2(1) 3(1) 4(1) a b)
  with 1(2) 3(2) 4(3)
  show "\<exists>l d t. e = l @ ''@'' @ d @ ''.'' @ t \<and> l \<in> lang ?L \<and> d \<in> lang ?L \<and> t \<in> lang ?L"
    by blast
next
  let ?L = "OneOrMore (Class not_space_at)"
  assume "\<exists>l d t. e = l @ ''@'' @ d @ ''.'' @ t \<and> l \<in> lang ?L \<and> d \<in> lang ?L \<and> t \<in> lang ?L"
  then obtain l d t where e: "e = l @ ''@'' @ d @ ''.'' @ t"
    and l: "l \<in> lang ?L" and d: "d \<in> lang ?L" and t: "t \<in> lang ?L" by blast
  have "''.'' \<in> lang (Class (\<lambda>c. c = CHR ''.''))" by simp
  from this t have 1: "''.'' @ t \<in> lang (Seq (Class (\<lambda>c. c = CHR ''.'')) ?L)"
    by (rule lang_SeqI)
  from d 1 have 2: "d @ ''.'' @ t \<in> lang (Seq ?L (Seq (Class (\<lambda>c. c = CHR ''.'')) ?L))"
    by (rule lang_SeqI)
  have "''@'' \<in> lang (Class (\<lambda>c. c = CHR ''@''))" by simp
  from this 2 have 3: "''@'' @ d @ ''.'' @ t
      \<in> lang (Seq (Class (\<lambda>c. c = CHR ''@'')) (Seq ?L (Seq (Class (\<lambda>c. c = CHR ''.'')) ?L)))"
    by (rule lang_SeqI)
  from l 3 have "l @ ''@'' @ d @ ''.'' @ t \<in> lang emailRegex"
    unfolding emailRegex_def by (rule lang_SeqI)
  with e show "e \<in> lang emailRegex" by (simp only:)
qed

lemma validateEmail_iff:
  "validateEmail e \<longleftrightarrow>
     (\<exists>l d t. e = l @ ''@'' @ d @ ''.'' @ t \<and> l \<noteq> [] \<and> d \<noteq> [] \<and> t \<noteq> []
        \<and> (\<forall>c \<in> set (l @ d @ t). \<not> isWhiteSpace c \<and> c \<noteq> CHR ''@''))"
proof -
  have parts: "(l \<in> lang (OneOrMore (Class not_space_at))
        \<and> d \<in> lang (OneOrMore (Class not_space_at))
        \<and> t \<in> lang (OneOrMore (Class not_space_at)))
      \<longleftrightarrow> (l \<noteq> [] \<and> d \<noteq> [] \<and> t \<noteq> []
        \<and> (\<forall>c \<in> set (l @ d @ t). \<not> isWhiteSpace c \<and> c \<noteq> CHR ''@''))" for l d t
    unfolding lang_OneOrMore_Class by (auto simp: not_space_at_def)
  have "validateEmail e \<longleftrightarrow> e \<in> lang emailRegex"
    by (simp add: validateEmail_def test_re_lang)
  also have "\<dots> \<longleftrightarrow> (\<exists>l d t. e = l @ ''@'' @ d @ ''.'' @ t \<and> l \<noteq> [] \<and> d \<noteq> [] \<and> t \<noteq> []
        \<and> (\<forall>c \<in> set (l @ d @ t). \<not> isWhiteSpace c \<and> c \<noteq> CHR ''@''))"
    unfolding lang_emailRegex using parts by blast
  finally show ?thesis .
qed

text \<open>
  C10. \<open>handleRegister\<close> issues a request exactly when name, email and password are
  non-empty, the trimmed name has at least 2 characters, the email matches the
  expression, the password has at least 6 characters and equals its confirmation;
  otherwise it shows one alert, makes no request and leaves the form as it was.
\<close>

theorem C10_register_request:
  "(fetches (snd (handleRegister lv r)) \<noteq> [] \<longleftrightarrow>
      name_r (registerData lv) \<noteq> [] \<and> email_r (registerData lv) \<noteq> []
      \<and> password_r (registerData lv) \<noteq> []
      \<and> 2 \<le> length (trim (name_r (registerData lv)))
      \<and> validateEmail (email_r (registerData lv))
      \<and> 6 \<le> length (password_r (registerData lv))
      \<and> password_r (registerData lv) = confirmPassword (registerData lv))
   \<and> (fetches (snd (handleRegister lv r)) = [] \<longrightarrow>
        (\<exists>a. snd (handleRegister lv r) = [Alert a]) \<and> fst (handleRegister lv r) = lv)"
  by (auto simp: handleRegister_def validateRegisterForm_def Let_def
      split: fetch_result.splits sum.splits)

theorem C10_register_request_witness:
  "fetches (snd (handleRegister sample_form login_500)) \<noteq> []
   \<and> fetches (snd (handleRegister
        (sample_form\<lparr>registerData := (registerData sample_form)\<lparr>confirmPassword := ''secret2''\<rparr>\<rparr>)
        login_500)) = []
   \<and> validateEmail ''ana@example.com'' \<and> \<not> validateEmail ''ana@example''"
proof -
  have e: "validateEmail ''ana@example.com''" "\<not> validateEmail ''ana@example''"
    by (simp_all add: validateEmail_def emailRegex_def OneOrMore_def not_space_at_def
        isWhiteSpace_def)
  have t: "trim ''Ana'' = ''Ana''" by (simp add: trim_def isWhiteSpace_def)
  from C10_register_request [of sample_form login_500]
    C10_register_request [of "sample_form\<lparr>registerData :=
        (registerData sample_form)\<lparr>confirmPassword := ''secret2''\<rparr>\<rparr>" login_500] e t
  show ?thesis
    by (simp add: sample_form_def)
qed

end
